theory Spec2Isabelle
  imports Complex_Main
begin

section \<open>The heat equation calculator (heating\_eqn.py)\<close>

text \<open>
  A shallow embedding of the class \<open>Heat_Eqn\<close>: its constructor, \<open>area\<close>,
  \<open>mat_constants\<close> and \<open>heateqn\<close>.

  Conventions of the embedding.
  \<^item> Python floats and NumPy float64 values are the real numbers; every arithmetic
    operation is exact. Rounding, overflow, \<open>inf\<close> and \<open>nan\<close> are outside the model.
    The program's numbers differ from the model's by rounding. What the program decides by
    a rounded number is therefore not decided by the model, and no theorem below is about
    it: the number of rows (the ceiling of a float64 quotient, which can be one more than
    the ceiling of the exact quotient), the node index of a hat pulse when the float64
    product \<open>(T_0 / xf) * m\<close> and the exact one fall on different sides of an integer, and
    the order of two temperatures that differ in the last place. The theorems are about the
    formulas that the code evaluates, about which exception ends a run, about what is
    printed, and about runs on inputs where none of these roundings matters.
  \<^item> Python integers are \<open>int\<close>.
  \<^item> A raised exception is a value \<open>Inl e\<close> of a sum type; text written by \<open>print\<close>
    and \<open>pprint\<close> is returned as a list of \<open>printed\<close> items, oldest first.
  \<^item> The table \<open>thermal_prop\<close> of the database file \<open>Thermal.db\<close> is a parameter:
    the list of its rows in the order the database returns them.
  \<^item> Strings are ASCII; \<open>str.lower\<close> and SQLite's \<open>lower\<close> agree on ASCII.
\<close>

subsection \<open>Failures and printed output\<close>

text \<open>
  The Python exceptions the modelled code can raise, and \<open>Unmodelled\<close>: the input
  leaves the fragment of Python, NumPy and SQL that the embedding covers. That happens in
  two places only: a material name containing a quote character (it is pasted into the SQL
  text, which then is a different query), and \<open>None\<close> assigned into the float array
  (NumPy stores \<open>nan\<close>, which is not a real number). \<open>Unmodelled\<close> is not a claim that
  the program raises.
\<close>

datatype py_error = ZeroDivisionError | TypeError | ValueError | IndexError | Unmodelled

datatype printed = Line string | Names "string list"

subsection \<open>Python values of the shape lengths\<close>

text \<open>
  \<open>Shape_Lengths\<close> is a tuple of numbers when the caller passes it, and the constructor
  can store a tuple inside it, so its items are Python values: an integer, a float or a
  tuple.
\<close>

datatype pyval = PInt int | PFloat real | PTuple "pyval list"

text \<open>\<open>a * b\<close> on these values: numbers multiply (an integer times an integer is an
  integer), a tuple times an integer repeats the tuple, anything else raises TypeError.\<close>

fun py_mul :: "pyval \<Rightarrow> pyval \<Rightarrow> py_error + pyval" where
  "py_mul (PInt a) (PInt b) = Inr (PInt (a * b))"
| "py_mul (PInt a) (PFloat b) = Inr (PFloat (real_of_int a * b))"
| "py_mul (PFloat a) (PInt b) = Inr (PFloat (a * real_of_int b))"
| "py_mul (PFloat a) (PFloat b) = Inr (PFloat (a * b))"
| "py_mul (PTuple xs) (PInt n) = Inr (PTuple (concat (replicate (nat n) xs)))"
| "py_mul (PInt n) (PTuple xs) = Inr (PTuple (concat (replicate (nat n) xs)))"
| "py_mul (PTuple xs) (PFloat b) = Inl TypeError"
| "py_mul (PFloat a) (PTuple ys) = Inl TypeError"
| "py_mul (PTuple xs) (PTuple ys) = Inl TypeError"

text \<open>\<open>a ** 2\<close>: defined on numbers, TypeError on a tuple.\<close>

fun py_square :: "pyval \<Rightarrow> py_error + pyval" where
  "py_square (PInt a) = Inr (PInt (a ^ 2))"
| "py_square (PFloat a) = Inr (PFloat (a ^ 2))"
| "py_square (PTuple xs) = Inl TypeError"

subsection \<open>Strings\<close>

definition lower_char :: "char \<Rightarrow> char" where
  "lower_char ch =
     (let n = (of_char ch :: nat) in if 65 \<le> n \<and> n \<le> 90 then char_of (n + 32) else ch)"

definition lower :: "string \<Rightarrow> string" where
  "lower s = map lower_char s"

subsection \<open>The object and its constructor\<close>

record heat_eqn =
  Material :: string
  Number_Of_Steps :: int
  Shape :: string
  Shape_Lengths :: "pyval list"
  Length :: real
  Time :: real
  Left_Boundary :: real
  Right_Boundary :: real
  Gif :: bool
  Graph :: bool
  Hat_Function :: bool
  Temperature_0 :: "real option"
  Location_of_Temp :: "real option"
  Length_Of_Hat_Function :: "real option"

text \<open>
  \<open>__init__\<close> (lines 25 to 68). It prints a warning when the hat function is requested
  and one of its three parameters is \<open>None\<close>, and goes on. A one-item tuple of shape
  lengths is replaced by \<open>(a, 0)\<close> where \<open>a\<close> is bound by \<open>a = Shape_Lengths\<close>, that is,
  to the tuple itself and not to its item.
\<close>

definition init ::
  "string \<Rightarrow> int \<Rightarrow> string \<Rightarrow> pyval list \<Rightarrow> real \<Rightarrow> real \<Rightarrow> real \<Rightarrow> real \<Rightarrow>
   bool \<Rightarrow> bool \<Rightarrow> bool \<Rightarrow> real option \<Rightarrow> real option \<Rightarrow> real option \<Rightarrow>
   printed list \<times> heat_eqn" where
  "init Material' Number_Of_Steps' Shape' Shape_Lengths' Length' Time' Left_Boundary'
      Right_Boundary' Gif' Graph' Hat_Function' Temperature_0' Location_of_Temp'
      Length_Of_Hat_Function' =
    (let out =
       (if Hat_Function' \<and>
           (Temperature_0' = None \<or> Location_of_Temp' = None \<or> Length_Of_Hat_Function' = None)
        then [Line ''Missing a parameter in relation to the hat function'']
        else []);
         lengths =
       (if length Shape_Lengths' = 1
        then (let a = PTuple Shape_Lengths' in [a, PInt 0])
        else Shape_Lengths')
     in (out,
         \<lparr>Material = Material', Number_Of_Steps = Number_Of_Steps', Shape = Shape',
          Shape_Lengths = lengths, Length = Length', Time = Time',
          Left_Boundary = Left_Boundary', Right_Boundary = Right_Boundary',
          Gif = Gif', Graph = Graph', Hat_Function = Hat_Function',
          Temperature_0 = Temperature_0', Location_of_Temp = Location_of_Temp',
          Length_Of_Hat_Function = Length_Of_Hat_Function'\<rparr>))"

subsection \<open>Cross-sectional area\<close>

text \<open>
  \<open>area\<close> (lines 69 to 88). The tuple is unpacked into \<open>a, b\<close> first, which raises
  ValueError unless it has exactly two items. An unsupported shape prints a message and
  returns \<open>None\<close>.
\<close>

definition area :: "heat_eqn \<Rightarrow> printed list \<times> (py_error + pyval option)" where
  "area self =
    (let shape = Shape self in
     case Shape_Lengths self of
       [a, b] \<Rightarrow>
         if lower shape = ''ellipse'' then
           ([], case py_mul (PFloat pi) a of
                  Inl e \<Rightarrow> Inl e
                | Inr pa \<Rightarrow> map_sum id Some (py_mul pa b))
         else if lower shape = ''rectangle'' then
           ([], map_sum id Some (py_mul a b))
         else if lower shape = ''triangle'' then
           ([], case py_square a of
                  Inl e \<Rightarrow> Inl e
                | Inr a2 \<Rightarrow> map_sum id Some (py_mul (PFloat (sqrt 3 / 4)) a2))
         else if lower shape = ''hexagon'' then
           ([], case py_square a of
                  Inl e \<Rightarrow> Inl e
                | Inr a2 \<Rightarrow> map_sum id Some (py_mul (PFloat (3 * sqrt 3 / 2)) a2))
         else
           ([Line (''Looks like you choose a shape that is not currently supported, '' @
                   ''review docstring of Heat_Eqn.'')], Inr None)
     | _ \<Rightarrow> ([], Inl ValueError))"

subsection \<open>Material constants\<close>

text \<open>A row of \<open>thermal_prop\<close>: Material, Conductivity, Diffusivity, Specific\_Heat,
  Effusivity, Density.\<close>

type_synonym thermal_row = "string \<times> real \<times> real \<times> real \<times> real \<times> real"

text \<open>
  \<open>mat_constants\<close> (lines 89 to 115): the rows whose lower-cased name equals the
  lower-cased material; with none, the messages and the list of all material names are
  printed and \<open>None\<close> is returned; otherwise the first row without its name.
\<close>

definition mat_constants ::
  "thermal_row list \<Rightarrow> heat_eqn \<Rightarrow>
   printed list \<times> (py_error + (real \<times> real \<times> real \<times> real \<times> real) option)" where
  "mat_constants thermal_prop self =
    (let mat = lower (Material self) in
     if CHR 0x27 \<in> set mat then ([], Inl Unmodelled)
     else
       (case filter (\<lambda>row. lower (fst row) = mat) thermal_prop of
          [] \<Rightarrow>
            ([Line (''Looks like the material you selected either is not in the database '' @
                    ''or it is misspelled.''),
              Line ''please use one of the following materials'',
              Names (map fst thermal_prop)], Inr None)
        | (M, K, alpha, c, e, rho) # _ \<Rightarrow> ([], Inr (Some (K, alpha, c, e, rho)))))"

subsection \<open>The solver: derived parameters\<close>

text \<open>
  Lines 127 to 132 of \<open>heateqn\<close>: \<open>alphaprime = k / (c*rho)\<close>, \<open>dx = xf / m\<close>,
  \<open>dt = (dx**2) / (2*alphaprime)\<close>. Each division raises ZeroDivisionError on a zero
  divisor. The result is \<open>(alphaprime, dx, dt)\<close>.
\<close>

definition derived :: "heat_eqn \<Rightarrow> real \<Rightarrow> real \<Rightarrow> real \<Rightarrow> py_error + (real \<times> real \<times> real)" where
  "derived self k c rho =
    (let m = Number_Of_Steps self in
     if c * rho = 0 then Inl ZeroDivisionError
     else
       let alphaprime = k / (c * rho);
           xf = Length self
       in if m = 0 then Inl ZeroDivisionError
          else
            let dx = xf / real_of_int m
            in if 2 * alphaprime = 0 then Inl ZeroDivisionError
               else Inr (alphaprime, dx, dx ^ 2 / (2 * alphaprime)))"

subsection \<open>The solver: time axis and zero-filled field\<close>

text \<open>
  Lines 133 to 135. \<open>np.arange(0, tf, dt)\<close> divides by \<open>dt\<close> and has
  \<open>max(0, ceil(tf / dt))\<close> samples \<open>0, dt, 2 dt, \<dots>\<close>; the quotient is exact here and a
  float64 in the program, so the program can have one row more when the exact quotient is
  an integer or close to one. \<open>np.empty(m)\<close> raises
  ValueError on a negative size; its items are whatever the memory holds, here 0 (the
  solver writes every item before it reads one, see \<open>stepping_x_irrelevant\<close>).
  \<open>np.ones((len(t), len(x))) * 0\<close> is the zero-filled field. The result is \<open>(t, x, U)\<close>.
\<close>

definition allocate ::
  "heat_eqn \<Rightarrow> real \<Rightarrow> py_error + (real list \<times> real list \<times> real list list)" where
  "allocate self dt =
    (let m = Number_Of_Steps self;
         tf = Time self
     in if dt = 0 then Inl ZeroDivisionError
        else
          let t = map (\<lambda>n. 0 + real n * dt) [0..<nat \<lceil>(tf - 0) / dt\<rceil>]
          in if m < 0 then Inl ValueError
             else
               let x = replicate (nat m) (0::real);
                   U = replicate (length t) (replicate (length x) (1 * 0))
               in Inr (t, x, U))"

subsection \<open>The solver: initial condition\<close>

text \<open>\<open>int(y)\<close> on a float truncates toward zero.\<close>

definition py_int :: "real \<Rightarrow> int" where
  "py_int y = (if y < 0 then \<lceil>y\<rceil> else \<lfloor>y\<rfloor>)"

text \<open>
  A bound \<open>b\<close> of a Python slice over \<open>n\<close> items: a negative bound counts from the
  end (\<open>b + n\<close>, not below 0), a bound beyond the end is the end.
\<close>

definition slice_bound :: "nat \<Rightarrow> int \<Rightarrow> nat" where
  "slice_bound n b = nat (if b < 0 then max (b + int n) 0 else min b (int n))"

text \<open>\<open>row[start:stop] = v\<close> for a scalar \<open>v\<close>.\<close>

definition assign_slice :: "real list \<Rightarrow> int \<Rightarrow> int \<Rightarrow> real \<Rightarrow> real list" where
  "assign_slice row start stop v =
    (let lo = slice_bound (length row) start;
         hi = slice_bound (length row) stop
     in map (\<lambda>i. if lo \<le> i \<and> i < hi then v else row ! i) [0..<length row])"

text \<open>
  Lines 136 to 140. \<open>None / 2\<close> and \<open>None / xf\<close> raise TypeError; row 0 of a field
  without rows raises IndexError; \<open>None\<close> as the assigned temperature is outside the
  model (NumPy stores \<open>nan\<close>, and the program goes on to return a field of \<open>nan\<close>). The
  index \<open>startingcondition\<close> is truncated from the exact product here and from the float64
  product in the program; the two agree whenever the float64 operations are exact, as for
  location 0.1, length 1 and 10 nodes below.
\<close>

definition hat :: "heat_eqn \<Rightarrow> real \<Rightarrow> int \<Rightarrow> real list list \<Rightarrow> py_error + real list list" where
  "hat self xf m U =
    (if Hat_Function self then
       (case Length_Of_Hat_Function self of
          None \<Rightarrow> Inl TypeError
        | Some l \<Rightarrow>
            let deltafunction = \<lceil>l / 2\<rceil>
            in (case Location_of_Temp self of
                  None \<Rightarrow> Inl TypeError
                | Some T_0 \<Rightarrow>
                    let startingcondition = py_int (((T_0 / xf) * real_of_int m) - 1)
                    in (case U of
                          [] \<Rightarrow> Inl IndexError
                        | row0 # rows \<Rightarrow>
                            (case Temperature_0 self of
                               None \<Rightarrow> Inl Unmodelled
                             | Some T0 \<Rightarrow>
                                 Inr (assign_slice row0 (startingcondition - deltafunction)
                                        (startingcondition + deltafunction) T0 # rows)))))
     else Inr U)"

subsection \<open>The solver: stepping loop\<close>

text \<open>The inner loop of line 144 and 145, over the indices \<open>is\<close>, writing into \<open>x\<close>.\<close>

fun inner_loop :: "real \<Rightarrow> real \<Rightarrow> real list list \<Rightarrow> nat \<Rightarrow> nat list \<Rightarrow> real list \<Rightarrow> real list" where
  "inner_loop alphaprime dx U j [] x = x"
| "inner_loop alphaprime dx U j (i # is) x =
     inner_loop alphaprime dx U j is
       (x[i := alphaprime * ((U ! j ! (i + 1) - (2 * (U ! j ! i)) + U ! j ! (i - 1)) / dx ^ 2)])"

text \<open>
  One pass of the outer loop body (lines 144 to 148) on the state \<open>(U, x)\<close>. With
  \<open>m = 1\<close> the read \<open>U[j,1]\<close> of line 146 raises IndexError.
\<close>

definition step ::
  "real \<Rightarrow> real \<Rightarrow> real \<Rightarrow> real \<Rightarrow> real \<Rightarrow> nat \<Rightarrow> nat \<Rightarrow> real list list \<times> real list \<Rightarrow>
   py_error + (real list list \<times> real list)" where
  "step alphaprime dx dt bl br m j s =
    (case s of (U, x) \<Rightarrow>
       if m < 2 then Inl IndexError
       else
         let x1 = inner_loop alphaprime dx U j [1..<m - 1] x;
             x2 = x1[0 := alphaprime * ((U ! j ! 1 - (2 * (U ! j ! 0)) + bl) / dx ^ 2)];
             x3 = x2[m - 1 := alphaprime * ((br - (2 * (U ! j ! (m - 1))) + U ! j ! (m - 2)) / dx ^ 2)]
         in Inr (U[j + 1 := map2 (\<lambda>u r. u + r * dt) (U ! j) x3], x3))"

text \<open>The outer loop of line 143 over the time steps \<open>js\<close>; an exception ends it.\<close>

fun stepping ::
  "real \<Rightarrow> real \<Rightarrow> real \<Rightarrow> real \<Rightarrow> real \<Rightarrow> nat \<Rightarrow> nat list \<Rightarrow> real list list \<times> real list \<Rightarrow>
   py_error + (real list list \<times> real list)" where
  "stepping alphaprime dx dt bl br m [] s = Inr s"
| "stepping alphaprime dx dt bl br m (j # js) s =
     (case step alphaprime dx dt bl br m j s of
        Inl e \<Rightarrow> Inl e
      | Inr s' \<Rightarrow> stepping alphaprime dx dt bl br m js s')"

subsection \<open>The solver: display scale and result\<close>

text \<open>Lines 150 to 161: the highest temperature \<open>Th\<close>, for the plots' axes.\<close>

definition display_scale :: "heat_eqn \<Rightarrow> real" where
  "display_scale self =
    (let bl = Left_Boundary self; br = Right_Boundary self in
     case Temperature_0 self of
       None \<Rightarrow> (if br \<ge> bl then br else bl)
     | Some T0 \<Rightarrow>
         if T0 > bl \<and> T0 > br then T0
         else if br \<ge> bl then br
         else bl)"

text \<open>\<open>np.linspace(start, stop, m)\<close> for \<open>m > 0\<close>.\<close>

definition linspace :: "real \<Rightarrow> real \<Rightarrow> nat \<Rightarrow> real list" where
  "linspace start stop m =
    (if m = 1 then [start]
     else map (\<lambda>i. start + real i * ((stop - start) / real (m - 1))) [0..<m])"

text \<open>
  Where the field goes (lines 162 to 167): to \<open>gif_maker\<close>, to \<open>graph_sketcher\<close>, or
  back to the caller. The rendering itself is not modelled; \<open>heat_run\<close> holds what
  \<open>heateqn\<close> computed and hands over: \<open>xn\<close>, \<open>U\<close>, \<open>xf\<close>, \<open>Th\<close> and \<open>t\<close>.
\<close>

datatype consumer = Gif_Maker | Graph_Sketcher | Caller

record heat_run =
  run_xn :: "real list"
  run_U :: "real list list"
  run_xf :: real
  run_Th :: real
  run_t :: "real list"
  run_consumer :: consumer

text \<open>What \<open>heateqn\<close> returns to its caller: the field, or \<open>None\<close> after rendering.\<close>

definition returned :: "heat_run \<Rightarrow> real list list option" where
  "returned r = (if run_consumer r = Caller then Some (run_U r) else None)"

text \<open>
  The solver after the material lookup (lines 127 to 167), for the constants
  \<open>k\<close>, \<open>c\<close>, \<open>rho\<close>.
\<close>

definition solve :: "heat_eqn \<Rightarrow> real \<Rightarrow> real \<Rightarrow> real \<Rightarrow> py_error + heat_run" where
  "solve self k c rho =
    (case derived self k c rho of
       Inl err \<Rightarrow> Inl err
     | Inr (alphaprime, dx, dt) \<Rightarrow>
         (case allocate self dt of
            Inl err \<Rightarrow> Inl err
          | Inr (t, x, U0) \<Rightarrow>
              (case hat self (Length self) (Number_Of_Steps self) U0 of
                 Inl err \<Rightarrow> Inl err
               | Inr U1 \<Rightarrow>
                   let bl = Left_Boundary self;
                       br = Right_Boundary self;
                       m = nat (Number_Of_Steps self)
                   in (case stepping alphaprime dx dt bl br m [0..<length t - 1] (U1, x) of
                         Inl err \<Rightarrow> Inl err
                       | Inr (U2, x2) \<Rightarrow>
                           Inr \<lparr>run_xn = linspace (dx / 2) (Length self - dx / 2) m,
                                run_U = U2, run_xf = Length self,
                                run_Th = display_scale self, run_t = t,
                                run_consumer = (if Gif self then Gif_Maker
                                            else if Graph self then Graph_Sketcher
                                            else Caller)\<rparr>))))"

text \<open>
  \<open>heateqn\<close> (lines 116 to 167). Line 123 unpacks the result of \<open>mat_constants\<close> into
  five names; when that result is \<open>None\<close> the unpacking raises TypeError, so the test
  \<open>k == None\<close> of line 124 and the return of line 126 are never reached (and \<open>k\<close>, once
  unpacked, is a number).
\<close>

definition heateqn :: "thermal_row list \<Rightarrow> heat_eqn \<Rightarrow> printed list \<times> (py_error + heat_run)" where
  "heateqn thermal_prop self =
    (case mat_constants thermal_prop self of
       (out, Inl err) \<Rightarrow> (out, Inl err)
     | (out, Inr None) \<Rightarrow> (out, Inl TypeError)
     | (out, Inr (Some (k, alpha, c, e, rho))) \<Rightarrow> (out, solve self k c rho))"

text \<open>The rows of the table that the script's main block lists; two of them.\<close>

definition Aluminum :: thermal_row where
  "Aluminum = (''Aluminum'', 225.94, 91, 921, 23688, 2698)"

definition Copper :: thermal_row where
  "Copper = (''Copper'', 397.48, 116, 385, 36983, 8940)"

subsection \<open>The stepping scheme in the words of the specification\<close>

text \<open>
  The rate of change at node \<open>i\<close> computed from one row: the central second difference,
  with the left boundary temperature in place of the missing left neighbour of node 0 and
  the right boundary temperature in place of the missing right neighbour of node
  \<open>m - 1\<close>; and the next row, the row plus \<open>dt\<close> times the rate.
\<close>

definition spec_rate :: "real \<Rightarrow> real \<Rightarrow> real \<Rightarrow> real \<Rightarrow> nat \<Rightarrow> real list \<Rightarrow> nat \<Rightarrow> real" where
  "spec_rate alphaprime dx bl br m row i =
     alphaprime *
       (((if i = m - 1 then br else row ! (i + 1)) - 2 * (row ! i) +
         (if i = 0 then bl else row ! (i - 1))) / dx ^ 2)"

definition spec_next_row :: "real \<Rightarrow> real \<Rightarrow> real \<Rightarrow> real \<Rightarrow> real \<Rightarrow> nat \<Rightarrow> real list \<Rightarrow> real list" where
  "spec_next_row alphaprime dx dt bl br m row =
     map (\<lambda>i. row ! i + spec_rate alphaprime dx bl br m row i * dt) [0..<m]"

subsection \<open>Example inputs\<close>

text \<open>A rod of aluminium with three nodes, one metre long, simulated for 2000 seconds
  between two boundaries at 100 degrees, with no hat pulse; the field goes back to the
  caller. The table holds the two rows above.\<close>

definition rod3 :: heat_eqn where
  "rod3 = snd (init ''Aluminum'' 3 ''ellipse'' [PFloat 1, PFloat 1] 1 2000 100 100
                 False False False None None None)"

definition rod3_run :: heat_run where
  "rod3_run =
     \<lparr>run_xn = [1 / 6, 1 / 2, 5 / 6],
      run_U = [[0, 0, 0], [50, 0, 50], [50, 50, 50], [75, 50, 75]],
      run_xf = 1, run_Th = 100,
      run_t = [0, 20707150 / 33891, 41414300 / 33891, 20707150 / 11297],
      run_consumer = Caller\<rparr>"

subsection \<open>Changing the stored diffusivity\<close>

text \<open>A row with its Diffusivity column replaced by \<open>d\<close> of the name and the old value.\<close>

definition set_diffusivity :: "(string \<Rightarrow> real \<Rightarrow> real) \<Rightarrow> thermal_row \<Rightarrow> thermal_row" where
  "set_diffusivity d row = (case row of (M, K, alpha, c, e, rho) \<Rightarrow> (M, K, d M alpha, c, e, rho))"

subsection \<open>Example objects for the area\<close>

text \<open>The objects of the script's own tests, and a triangle and a hexagon built with a
  one-item tuple as the docstring of the constructor prescribes.\<close>

definition ellipse_2_3 :: heat_eqn where
  "ellipse_2_3 = snd (init ''Aluminum'' 1000 ''ellipse'' [PFloat 2, PFloat 3] 1 1000 100 100
                        False False False None None None)"

definition ellipse_2_0 :: heat_eqn where
  "ellipse_2_0 = snd (init ''Aluminum'' 1000 ''ellipse'' [PFloat 2, PFloat 0] 1 1000 100 100
                        False False False None None None)"

definition pentagon_2_1 :: heat_eqn where
  "pentagon_2_1 = snd (init ''Aluminum'' 1000 ''Pentagon'' [PFloat 2, PFloat 1] 1 1000 100 100
                         False False False None None None)"

definition Ellipse_2_3 :: heat_eqn where
  "Ellipse_2_3 = snd (init ''Aluminum'' 1000 ''Ellipse'' [PFloat 2, PFloat 3] 1 1000 100 100
                        False False False None None None)"

definition triangle_2 :: heat_eqn where
  "triangle_2 = snd (init ''Aluminum'' 1000 ''triangle'' [PFloat 2] 1 1000 100 100
                       False False False None None None)"

definition hexagon_2 :: heat_eqn where
  "hexagon_2 = snd (init ''Aluminum'' 1000 ''hexagon'' [PFloat 2] 1 1000 100 100
                      False False False None None None)"

text \<open>What \<open>area\<close> prints for an unsupported shape.\<close>

definition unsupported_shape :: "printed list" where
  "unsupported_shape =
     [Line (''Looks like you choose a shape that is not currently supported, '' @
            ''review docstring of Heat_Eqn.'')]"

subsection \<open>Messages and example inputs for the failure cases\<close>

text \<open>What \<open>mat_constants\<close> prints when no row matches.\<close>

definition not_found_report :: "thermal_row list \<Rightarrow> printed list" where
  "not_found_report thermal_prop =
     [Line (''Looks like the material you selected either is not in the database '' @
            ''or it is misspelled.''),
      Line ''please use one of the following materials'',
      Names (map fst thermal_prop)]"

text \<open>The object of the script's test \<open>testHeatEqnMatConFail\<close>: a material that the
  table does not hold.\<close>

definition rod_aluminium :: heat_eqn where
  "rod_aluminium = snd (init ''Aluminium'' 1000 ''ellipse'' [PFloat 1, PFloat 1] 1 1000 100 100
                          False False False None None None)"

text \<open>A rod of negative length, and what \<open>heateqn\<close> makes of it.\<close>

definition rod_negative_length :: heat_eqn where
  "rod_negative_length =
     snd (init ''Aluminum'' 2 ''ellipse'' [PFloat 1, PFloat 1] (- 1) 2000 100 100
            False False False None None None)"

definition rod_negative_length_run :: heat_run where
  "rod_negative_length_run =
     \<lparr>run_xn = [- (1 / 4), - (3 / 4)], run_U = [[0, 0], [50, 50]],
      run_xf = - 1, run_Th = 100, run_t = [0, 31060725 / 22594],
      run_consumer = Caller\<rparr>"

text \<open>
  The configurations that the specification rejects with \<open>ConfigurationError\<close>, in its
  words: fewer than two nodes, a length or a duration that is not positive, or a hat pulse
  with some but not all of its three parameters.
\<close>

definition spec_configuration_error :: "heat_eqn \<Rightarrow> bool" where
  "spec_configuration_error self \<longleftrightarrow>
     Number_Of_Steps self < 2 \<or> Length self \<le> 0 \<or> Time self \<le> 0 \<or>
     ((Temperature_0 self \<noteq> None \<or> Location_of_Temp self \<noteq> None \<or>
       Length_Of_Hat_Function self \<noteq> None) \<and>
      (Temperature_0 self = None \<or> Location_of_Temp self = None \<or>
       Length_Of_Hat_Function self = None))"

text \<open>What the constructor prints for an incomplete hat pulse.\<close>

definition hat_warning :: "printed list" where
  "hat_warning = [Line ''Missing a parameter in relation to the hat function'']"

text \<open>The constructor's result for a hat pulse of which only the temperature is given.\<close>

definition rod_only_initialTemp :: "printed list \<times> heat_eqn" where
  "rod_only_initialTemp =
     init ''Aluminum'' 10 ''ellipse'' [PFloat 1, PFloat 1] 1 6000 100 100
       False False True (Some 50) None None"

subsection \<open>The hat pulse in the words of the specification, and example inputs\<close>

text \<open>
  Row 0 as the specification describes it: with \<open>centerIndex = floor((location / length)
  * numberOfNodes) - 1\<close> and \<open>halfWidth = ceil(plateauLength / 2)\<close>, the nodes of
  \<open>[centerIndex - halfWidth, centerIndex + halfWidth)\<close>, clamped to
  \<open>[0, numberOfNodes)\<close>, hold the initial temperature and all others 0.
\<close>

definition spec_hat_row :: "heat_eqn \<Rightarrow> real list" where
  "spec_hat_row self =
     (let n = Number_Of_Steps self in
      case (Temperature_0 self, Location_of_Temp self, Length_Of_Hat_Function self) of
        (Some initialTemp, Some location, Some plateauLength) \<Rightarrow>
          let centerIndex = \<lfloor>(location / Length self) * real_of_int n\<rfloor> - 1;
              halfWidth = \<lceil>plateauLength / 2\<rceil>
          in map (\<lambda>i. if max 0 (centerIndex - halfWidth) \<le> int i \<and>
                          int i < min n (centerIndex + halfWidth)
                       then initialTemp else 0) [0..<nat n]
      | _ \<Rightarrow> replicate (nat n) 0)"

text \<open>Ten nodes of aluminium, one metre, 100 seconds, a pulse of 50 degrees: at 0.1 m
  with plateau length 2, and at 1 m with plateau length 4; and what \<open>heateqn\<close> computes
  for the first.\<close>

definition rod10_hat :: heat_eqn where
  "rod10_hat = snd (init ''Aluminum'' 10 ''ellipse'' [PFloat 1, PFloat 1] 1 100 100 100
                      False False True (Some 50) (Some (1 / 10)) (Some 2))"

definition rod10_hat_right :: heat_eqn where
  "rod10_hat_right = snd (init ''Aluminum'' 10 ''ellipse'' [PFloat 1, PFloat 1] 1 100 100 100
                            False False True (Some 50) (Some 1) (Some 4))"

definition rod10_hat_run :: heat_run where
  "rod10_hat_run =
     \<lparr>run_xn = [1 / 20, 3 / 20, 1 / 4, 7 / 20, 9 / 20, 11 / 20, 13 / 20, 3 / 4, 17 / 20, 19 / 20],
      run_U = [[0, 0, 0, 0, 0, 0, 0, 0, 0, 0], [50, 0, 0, 0, 0, 0, 0, 0, 0, 50]],
      run_xf = 1, run_Th = 100, run_t = [0, 1242429 / 22594],
      run_consumer = Caller\<rparr>"

section \<open>Properties\<close>

subsection \<open>The stepping loop\<close>

lemma inner_loop_length [simp]: "length (inner_loop a dx U j is x) = length x"
  by (induction "is" arbitrary: x) simp_all

lemma inner_loop_nth:
  "k < length x \<Longrightarrow>
   inner_loop a dx U j is x ! k =
     (if k \<in> set is then a * ((U ! j ! (k + 1) - (2 * (U ! j ! k)) + U ! j ! (k - 1)) / dx ^ 2)
      else x ! k)"
proof (induction "is" arbitrary: x)
  case Nil
  then show ?case by simp
next
  case (Cons i "is")
  then show ?case by (simp add: nth_list_update)
qed

lemma inner_loop_row: "U ! j = U' ! j \<Longrightarrow> inner_loop a dx U j is x = inner_loop a dx U' j is x"
  by (induction "is" arbitrary: x) simp_all

lemma step_rate:
  assumes "2 \<le> m" "length x = m"
  shows "step a dx dt bl br m j (U, x) =
           Inr (U[j + 1 := map2 (\<lambda>u r. u + r * dt) (U ! j) (map (spec_rate a dx bl br m (U ! j)) [0..<m])],
                map (spec_rate a dx bl br m (U ! j)) [0..<m])"
proof -
  let ?x1 = "inner_loop a dx U j [1..<m - 1] x"
  let ?x2 = "?x1[0 := a * ((U ! j ! 1 - (2 * (U ! j ! 0)) + bl) / dx ^ 2)]"
  let ?x3 = "?x2[m - 1 := a * ((br - (2 * (U ! j ! (m - 1))) + U ! j ! (m - 2)) / dx ^ 2)]"
  have len: "length ?x3 = m" using assms by simp
  have "?x3 ! i = spec_rate a dx bl br m (U ! j) i" if "i < m" for i
  proof -
    have "i = m - 1 \<or> (i = 0 \<and> i \<noteq> m - 1) \<or> (1 \<le> i \<and> i < m - 1)"
      using that by arith
    then consider "i = m - 1" | "i = 0" "i \<noteq> m - 1" | "1 \<le> i" "i < m - 1"
      by blast
    then show ?thesis
    proof cases
      case 1
      then show ?thesis using assms that
        by (simp add: spec_rate_def) (metis One_nat_def Suc_1 diff_diff_left plus_1_eq_Suc)
    next
      case 2
      then show ?thesis using assms that
        by (simp add: spec_rate_def nth_list_update)
    next
      case 3
      then show ?thesis using assms that
        by (simp add: spec_rate_def nth_list_update inner_loop_nth)
    qed
  qed
  then have "?x3 = map (spec_rate a dx bl br m (U ! j)) [0..<m]"
    using len by (intro nth_equalityI) simp_all
  then show ?thesis using assms by (simp add: step_def Let_def)
qed

lemma map2_next_row:
  "length row = m \<Longrightarrow>
   map2 (\<lambda>u r. u + r * dt) row (map (spec_rate a dx bl br m row) [0..<m]) =
     spec_next_row a dx dt bl br m row"
  by (intro nth_equalityI) (simp_all add: spec_next_row_def)

lemma length_spec_next_row [simp]: "length (spec_next_row a dx dt bl br m row) = m"
  by (simp add: spec_next_row_def)


lemma stepping_upt:
  assumes "2 \<le> m" "length x = m" "a + n < length U" "length (U ! a) = m"
  shows "\<exists>x'. length x' = m \<and>
           stepping al dx dt bl br m [a..<a + n] (U, x) =
             Inr (map (\<lambda>k. if a < k \<and> k \<le> a + n
                            then (spec_next_row al dx dt bl br m ^^ (k - a)) (U ! a)
                            else U ! k) [0..<length U], x')"
  using assms
proof (induction n arbitrary: a U x)
  case 0
  have "map (\<lambda>k. if a < k \<and> k \<le> a + 0
                    then (spec_next_row al dx dt bl br m ^^ (k - a)) (U ! a)
                    else U ! k) [0..<length U] = U"
    by (intro nth_equalityI) simp_all
  then show ?case using 0 by simp
next
  case (Suc n)
  let ?nxt = "spec_next_row al dx dt bl br m"
  let ?U1 = "U[a + 1 := ?nxt (U ! a)]"
  let ?x1 = "map (spec_rate al dx bl br m (U ! a)) [0..<m]"
  have st: "step al dx dt bl br m a (U, x) = Inr (?U1, ?x1)"
    using Suc.prems by (simp add: step_rate map2_next_row)
  have upt: "[a..<a + Suc n] = a # [a + 1..<(a + 1) + n]"
    by (simp add: upt_conv_Cons)
  have "\<exists>x'. length x' = m \<and>
           stepping al dx dt bl br m [a + 1..<(a + 1) + n] (?U1, ?x1) =
             Inr (map (\<lambda>k. if a + 1 < k \<and> k \<le> (a + 1) + n
                            then (?nxt ^^ (k - (a + 1))) (?U1 ! (a + 1))
                            else ?U1 ! k) [0..<length ?U1], x')"
    using Suc.prems by (intro Suc.IH) simp_all
  then obtain x' where x': "length x' = m"
    and run: "stepping al dx dt bl br m [a + 1..<(a + 1) + n] (?U1, ?x1) =
             Inr (map (\<lambda>k. if a + 1 < k \<and> k \<le> (a + 1) + n
                            then (?nxt ^^ (k - (a + 1))) (?U1 ! (a + 1))
                            else ?U1 ! k) [0..<length ?U1], x')"
    by blast
  have same: "(if a + 1 < k \<and> k \<le> (a + 1) + n
                 then (?nxt ^^ (k - (a + 1))) (?U1 ! (a + 1)) else ?U1 ! k) =
              (if a < k \<and> k \<le> a + Suc n then (?nxt ^^ (k - a)) (U ! a) else U ! k)"
    if "k < length U" for k
  proof -
    have row: "?U1 ! (a + 1) = ?nxt (U ! a)" using Suc.prems by simp
    consider "k \<le> a" | "k = a + 1" | "a + 1 < k" by linarith
    then show ?thesis
    proof cases
      case 1
      then show ?thesis by simp
    next
      case 2
      then show ?thesis using row by simp
    next
      case 3
      then have "k - a = Suc (k - (a + 1))" by simp
      then show ?thesis using 3 row by (simp add: funpow_Suc_right del: funpow.simps)
    qed
  qed
  have "map (\<lambda>k. if a + 1 < k \<and> k \<le> (a + 1) + n
                    then (?nxt ^^ (k - (a + 1))) (?U1 ! (a + 1))
                    else ?U1 ! k) [0..<length ?U1] =
        map (\<lambda>k. if a < k \<and> k \<le> a + Suc n then (?nxt ^^ (k - a)) (U ! a) else U ! k)
          [0..<length U]"
  proof (rule map_cong)
    show "[0..<length ?U1] = [0..<length U]" by simp
  next
    fix k assume "k \<in> set [0..<length U]"
    then have "k < length U" by simp
    then show "(if a + 1 < k \<and> k \<le> (a + 1) + n
                 then (?nxt ^^ (k - (a + 1))) (?U1 ! (a + 1)) else ?U1 ! k) =
              (if a < k \<and> k \<le> a + Suc n then (?nxt ^^ (k - a)) (U ! a) else U ! k)"
      by (rule same)
  qed
  then show ?case using st run x' unfolding upt by simp
qed

lemma stepping_short: "m < 2 \<Longrightarrow> js \<noteq> [] \<Longrightarrow> stepping al dx dt bl br m js s = Inl IndexError"
  by (cases js; cases s) (simp_all add: step_def)

text \<open>What \<open>np.empty\<close> left in \<open>x\<close> does not reach the field.\<close>

lemma stepping_x_irrelevant:
  assumes "length x = m" and "length x' = m"
  shows "map_sum id fst (stepping al dx dt bl br m js (U, x)) =
         map_sum id fst (stepping al dx dt bl br m js (U, x'))"
proof (cases js)
  case Nil
  then show ?thesis by simp
next
  case (Cons j js')
  show ?thesis
  proof (cases "m < 2")
    case True
    then show ?thesis using Cons by (simp add: step_def)
  next
    case False
    then have "step al dx dt bl br m j (U, x) = step al dx dt bl br m j (U, x')"
      using assms by (simp add: step_rate)
    then show ?thesis using Cons by simp
  qed
qed

subsection \<open>The solver as a whole\<close>

lemma length_assign_slice [simp]: "length (assign_slice row a b v) = length row"
  by (simp add: assign_slice_def Let_def)

lemma hat_shape:
  assumes "hat self xf m U0 = Inr U1"
  shows "length U1 = length U0" and "\<forall>j < length U0. length (U1 ! j) = length (U0 ! j)"
  using assms
  by (auto simp: hat_def Let_def nth_Cons split: if_splits option.splits list.splits nat.splits)

lemma hat_off: "\<not> Hat_Function self \<Longrightarrow> hat self xf m U0 = Inr U0"
  by (simp add: hat_def)

lemma allocate_Inr:
  "allocate self dt = Inr (t, x, U0) \<longleftrightarrow>
     dt \<noteq> 0 \<and> 0 \<le> Number_Of_Steps self \<and>
     t = map (\<lambda>n. real n * dt) [0..<nat \<lceil>Time self / dt\<rceil>] \<and>
     x = replicate (nat (Number_Of_Steps self)) 0 \<and>
     U0 = replicate (nat \<lceil>Time self / dt\<rceil>) (replicate (nat (Number_Of_Steps self)) 0)"
  by (auto simp: allocate_def Let_def)

lemma derived_Inr:
  "derived self k c rho = Inr (alphaprime, dx, dt) \<longleftrightarrow>
     c * rho \<noteq> 0 \<and> Number_Of_Steps self \<noteq> 0 \<and> k \<noteq> 0 \<and>
     alphaprime = k / (c * rho) \<and>
     dx = Length self / real_of_int (Number_Of_Steps self) \<and>
     dt = dx ^ 2 / (2 * alphaprime)"
  by (auto simp: derived_def Let_def)

lemma solve_Inr:
  assumes "solve self k c rho = Inr r"
  obtains alphaprime dx dt U1 where
    "derived self k c rho = Inr (alphaprime, dx, dt)"
    "dt \<noteq> 0" "0 \<le> Number_Of_Steps self"
    "hat self (Length self) (Number_Of_Steps self)
       (replicate (nat \<lceil>Time self / dt\<rceil>) (replicate (nat (Number_Of_Steps self)) 0)) = Inr U1"
    "run_U r =
       map (\<lambda>j. (spec_next_row alphaprime dx dt (Left_Boundary self) (Right_Boundary self)
                   (nat (Number_Of_Steps self)) ^^ j) (U1 ! 0))
         [0..<nat \<lceil>Time self / dt\<rceil>]"
    "run_t r = map (\<lambda>n. real n * dt) [0..<nat \<lceil>Time self / dt\<rceil>]"
    "run_Th r = display_scale self"
    "2 \<le> Number_Of_Steps self \<or> nat \<lceil>Time self / dt\<rceil> \<le> 1"
proof -
  from assms obtain alphaprime dx dt where d: "derived self k c rho = Inr (alphaprime, dx, dt)"
    by (auto simp: solve_def split: sum.splits)
  from assms d obtain t x U0 where a: "allocate self dt = Inr (t, x, U0)"
    by (auto simp: solve_def split: sum.splits)
  from assms d a obtain U1 where
    h: "hat self (Length self) (Number_Of_Steps self) U0 = Inr U1"
    by (auto simp: solve_def split: sum.splits)
  let ?m = "nat (Number_Of_Steps self)"
  let ?R = "nat \<lceil>Time self / dt\<rceil>"
  let ?nxt = "spec_next_row alphaprime dx dt (Left_Boundary self) (Right_Boundary self) ?m"
  from assms d a h obtain U2 x2 where
    s: "stepping alphaprime dx dt (Left_Boundary self) (Right_Boundary self) ?m
          [0..<length t - 1] (U1, x) = Inr (U2, x2)"
    and r: "r = \<lparr>run_xn = linspace (dx / 2) (Length self - dx / 2) ?m,
                 run_U = U2, run_xf = Length self, run_Th = display_scale self, run_t = t,
                 run_consumer = (if Gif self then Gif_Maker
                                 else if Graph self then Graph_Sketcher else Caller)\<rparr>"
    by (auto simp: solve_def Let_def split: sum.splits)
  from a have al: "dt \<noteq> 0" "0 \<le> Number_Of_Steps self"
    "t = map (\<lambda>n. real n * dt) [0..<?R]" "x = replicate ?m 0"
    "U0 = replicate ?R (replicate ?m 0)"
    by (simp_all add: allocate_Inr)
  have lenU1: "length U1 = ?R" using hat_shape(1)[OF h] al by simp
  have rows: "\<forall>j < ?R. length (U1 ! j) = ?m" using hat_shape(2)[OF h] al by simp
  have lt: "length t = ?R" using al by simp
  have big: "2 \<le> ?m \<or> ?R \<le> 1"
  proof (rule ccontr)
    assume "\<not> (2 \<le> ?m \<or> ?R \<le> 1)"
    then have "?m < 2" "[0..<length t - 1] \<noteq> []" using lt by simp_all
    then show False using s stepping_short by fastforce
  qed
  have U2: "U2 = map (\<lambda>j. (?nxt ^^ j) (U1 ! 0)) [0..<?R]"
  proof (cases "?R \<le> 1")
    case True
    then have "[0..<length t - 1] = []" using lt by simp
    then have "U2 = U1" using s by simp
    moreover have "U1 = map (\<lambda>j. (?nxt ^^ j) (U1 ! 0)) [0..<?R]"
    proof (rule nth_equalityI)
      show "length U1 = length (map (\<lambda>j. (?nxt ^^ j) (U1 ! 0)) [0..<?R])"
        using lenU1 by simp
    next
      fix i assume "i < length U1"
      then have "i < ?R" using lenU1 by simp
      moreover from this have "i = 0" using True by linarith
      ultimately show "U1 ! i = map (\<lambda>j. (?nxt ^^ j) (U1 ! 0)) [0..<?R] ! i"
        by (simp del: ceiling_le_one)
    qed
    ultimately show ?thesis by simp
  next
    case False
    then have m2: "2 \<le> ?m" using big by blast
    have "\<exists>x'. length x' = ?m \<and>
           stepping alphaprime dx dt (Left_Boundary self) (Right_Boundary self) ?m
             [0..<0 + (?R - 1)] (U1, x) =
             Inr (map (\<lambda>k. if 0 < k \<and> k \<le> 0 + (?R - 1) then (?nxt ^^ (k - 0)) (U1 ! 0) else U1 ! k)
                    [0..<length U1], x')"
      using m2 al False lenU1 rows by (intro stepping_upt) simp_all
    then have "U2 = map (\<lambda>k. if 0 < k \<and> k \<le> ?R - 1 then (?nxt ^^ k) (U1 ! 0) else U1 ! k) [0..<?R]"
      using s lt lenU1 by auto
    also have "\<dots> = map (\<lambda>j. (?nxt ^^ j) (U1 ! 0)) [0..<?R]"
      by (rule map_cong) auto
    finally show ?thesis .
  qed
  have "2 \<le> Number_Of_Steps self \<or> ?R \<le> 1" using big by linarith
  then show ?thesis
    using that[of alphaprime dx dt U1] d al h U2 r by simp
qed

lemma mat_constants_found:
  "mat_constants thermal_prop self = (out, Inr (Some v)) \<Longrightarrow> out = []"
  by (auto simp: mat_constants_def Let_def split: if_splits list.splits)

lemma heateqn_Inr:
  assumes "heateqn thermal_prop self = (out, Inr r)"
  obtains k alpha c e rho where
    "mat_constants thermal_prop self = (out, Inr (Some (k, alpha, c, e, rho)))"
    "solve self k c rho = Inr r"
  using assms
  by (auto simp: heateqn_def split: prod.splits sum.splits option.splits)

lemma fst_set_diffusivity [simp]: "fst (set_diffusivity d row) = fst row"
  by (simp add: set_diffusivity_def split: prod.splits)

lemma filter_set_diffusivity:
  "filter (\<lambda>row. lower (fst row) = mat) (map (set_diffusivity d) rows) =
   map (set_diffusivity d) (filter (\<lambda>row. lower (fst row) = mat) rows)"
  by (induction rows) (auto simp: set_diffusivity_def split: prod.splits)

lemma heateqn_set_diffusivity:
  "heateqn (map (set_diffusivity d) thermal_prop) self = heateqn thermal_prop self"
proof -
  show ?thesis
  proof (cases "filter (\<lambda>row. lower (fst row) = lower (Material self)) thermal_prop")
    case Nil
    then show ?thesis
      by (simp add: heateqn_def mat_constants_def Let_def filter_set_diffusivity)
  next
    case (Cons row rows)
    then show ?thesis
      by (cases row)
         (simp add: heateqn_def mat_constants_def Let_def filter_set_diffusivity
            set_diffusivity_def)
  qed
qed

lemma heateqn_field:
  assumes "heateqn thermal_prop self = (out, Inr r)"
  obtains k alpha c e rho alphaprime dx dt U1 where
    "mat_constants thermal_prop self = (out, Inr (Some (k, alpha, c, e, rho)))"
    "derived self k c rho = Inr (alphaprime, dx, dt)"
    "dt \<noteq> 0" "0 \<le> Number_Of_Steps self"
    "hat self (Length self) (Number_Of_Steps self)
       (replicate (nat \<lceil>Time self / dt\<rceil>) (replicate (nat (Number_Of_Steps self)) 0)) = Inr U1"
    "run_U r =
       map (\<lambda>j. (spec_next_row alphaprime dx dt (Left_Boundary self) (Right_Boundary self)
                   (nat (Number_Of_Steps self)) ^^ j) (U1 ! 0))
         [0..<nat \<lceil>Time self / dt\<rceil>]"
    "run_t r = map (\<lambda>n. real n * dt) [0..<nat \<lceil>Time self / dt\<rceil>]"
    "run_Th r = display_scale self"
    "2 \<le> Number_Of_Steps self \<or> nat \<lceil>Time self / dt\<rceil> \<le> 1"
proof -
  from assms obtain k alpha c e rho where
    m: "mat_constants thermal_prop self = (out, Inr (Some (k, alpha, c, e, rho)))"
    and s: "solve self k c rho = Inr r"
    by (rule heateqn_Inr)
  from s show ?thesis
    by (rule solve_Inr) (rule that[OF m])
qed

subsection \<open>The time step\<close>

lemma rod3_heateqn: "heateqn [Aluminum, Copper] rod3 = ([], Inr rod3_run)"
  by code_simp

text \<open>
  C1. Whenever \<open>heateqn\<close> produces a field, the material was found in the table and the
  derived parameters are \<open>alphaprime = k / (c * rho)\<close>, \<open>dx = Length / Number_Of_Steps\<close>
  and \<open>dt = dx\<^sup>2 / (2 * alphaprime)\<close>; the time axis advances by that \<open>dt\<close>; and the run is
  the same whatever the table's Diffusivity column holds.
\<close>

theorem time_step_formula:
  assumes "heateqn thermal_prop self = (out, Inr r)"
  shows "\<exists>k alpha c e rho.
           mat_constants thermal_prop self = (out, Inr (Some (k, alpha, c, e, rho))) \<and>
           derived self k c rho =
             Inr (k / (c * rho),
                  Length self / real_of_int (Number_Of_Steps self),
                  (Length self / real_of_int (Number_Of_Steps self)) ^ 2 / (2 * (k / (c * rho)))) \<and>
           run_t r =
             map (\<lambda>n. real n *
                    ((Length self / real_of_int (Number_Of_Steps self)) ^ 2 / (2 * (k / (c * rho)))))
               [0..<length (run_U r)] \<and>
           heateqn (map (set_diffusivity d) thermal_prop) self = (out, Inr r)"
proof -
  from assms obtain k alpha c e rho alphaprime dx dt where
    m: "mat_constants thermal_prop self = (out, Inr (Some (k, alpha, c, e, rho)))"
    and d: "derived self k c rho = Inr (alphaprime, dx, dt)"
    and u: "length (run_U r) = nat \<lceil>Time self / dt\<rceil>"
    and t: "run_t r = map (\<lambda>n. real n * dt) [0..<nat \<lceil>Time self / dt\<rceil>]"
    by (rule heateqn_field) simp
  from d have
    "alphaprime = k / (c * rho)"
    "dx = Length self / real_of_int (Number_Of_Steps self)"
    "dt = dx ^ 2 / (2 * alphaprime)"
    by (simp_all add: derived_Inr)
  then show ?thesis
    using m d u t assms by (simp add: heateqn_set_diffusivity)
qed

theorem time_step_formula_witness:
  "heateqn [Aluminum, Copper] rod3 = ([], Inr rod3_run) \<and>
   (\<exists>k alpha c e rho.
      mat_constants [Aluminum, Copper] rod3 = ([], Inr (Some (k, alpha, c, e, rho))) \<and>
      derived rod3 k c rho =
        Inr (k / (c * rho),
             Length rod3 / real_of_int (Number_Of_Steps rod3),
             (Length rod3 / real_of_int (Number_Of_Steps rod3)) ^ 2 / (2 * (k / (c * rho)))) \<and>
      run_t rod3_run =
        map (\<lambda>n. real n *
               ((Length rod3 / real_of_int (Number_Of_Steps rod3)) ^ 2 / (2 * (k / (c * rho)))))
          [0..<length (run_U rod3_run)] \<and>
      heateqn (map (set_diffusivity (\<lambda>M a. 0)) [Aluminum, Copper]) rod3 = ([], Inr rod3_run))"
proof -
  have h: "heateqn [Aluminum, Copper] rod3 = ([], Inr rod3_run)"
    by (rule rod3_heateqn)
  from h time_step_formula [OF h, of "\<lambda>M a. 0"] show ?thesis
    by (rule conjI)
qed

subsection \<open>Rows of the field\<close>

lemma step_ignores_next_row:
  "map_sum id snd (step al dx dt bl br m j (V[j + 1 := w], x)) =
   map_sum id snd (step al dx dt bl br m j (V, x))"
proof -
  have "V[j + 1 := w] ! j = V ! j" by simp
  then have "inner_loop al dx (V[j + 1 := w]) j [1..<m - 1] x = inner_loop al dx V j [1..<m - 1] x"
    by (rule inner_loop_row)
  then show ?thesis by (simp add: step_def Let_def)
qed

lemma field_rows:
  assumes "heateqn thermal_prop self = (out, Inr r)"
    and "mat_constants thermal_prop self = (out', Inr (Some (k, alpha, c, e, rho)))"
    and "derived self k c rho = Inr (alphaprime, dx, dt)"
  shows "length (run_U r) = nat \<lceil>Time self / dt\<rceil>"
    and "j < length (run_U r) \<Longrightarrow> length (run_U r ! j) = nat (Number_Of_Steps self)"
    and "j + 1 < length (run_U r) \<Longrightarrow>
           run_U r ! (j + 1) =
             spec_next_row alphaprime dx dt (Left_Boundary self) (Right_Boundary self)
               (nat (Number_Of_Steps self)) (run_U r ! j)"
    and "run_t r = map (\<lambda>n. real n * dt) [0..<length (run_U r)]"
proof -
  let ?m = "nat (Number_Of_Steps self)"
  let ?nxt = "spec_next_row alphaprime dx dt (Left_Boundary self) (Right_Boundary self) ?m"
  from assms(1) obtain k' alpha' c' e' rho' alphaprime' dx' dt' U1 where
    m: "mat_constants thermal_prop self = (out, Inr (Some (k', alpha', c', e', rho')))"
    and d: "derived self k' c' rho' = Inr (alphaprime', dx', dt')"
    and h: "hat self (Length self) (Number_Of_Steps self)
              (replicate (nat \<lceil>Time self / dt'\<rceil>) (replicate ?m 0)) = Inr U1"
    and u: "run_U r =
             map (\<lambda>j. (spec_next_row alphaprime' dx' dt' (Left_Boundary self) (Right_Boundary self)
                   ?m ^^ j) (U1 ! 0)) [0..<nat \<lceil>Time self / dt'\<rceil>]"
    and t: "run_t r = map (\<lambda>n. real n * dt') [0..<nat \<lceil>Time self / dt'\<rceil>]"
    by (rule heateqn_field)
  from m assms(2) have "k' = k" "c' = c" "rho' = rho" by simp_all
  with d assms(3) have eq: "alphaprime' = alphaprime" "dx' = dx" "dt' = dt" by simp_all
  show len: "length (run_U r) = nat \<lceil>Time self / dt\<rceil>" using u eq by simp
  show "run_t r = map (\<lambda>n. real n * dt) [0..<length (run_U r)]" using t eq len by simp
  have row0: "0 < nat \<lceil>Time self / dt\<rceil> \<Longrightarrow> length (U1 ! 0) = ?m"
    using hat_shape(2)[OF h] eq by simp
  show "length (run_U r ! j) = ?m" if "j < length (run_U r)"
  proof (cases j)
    case 0
    then show ?thesis using that u eq row0 len by simp
  next
    case (Suc n)
    then show ?thesis using that u eq len by simp
  qed
  show "run_U r ! (j + 1) = ?nxt (run_U r ! j)" if "j + 1 < length (run_U r)"
    using that u eq len by simp
qed

text \<open>
  C2. In a field that \<open>heateqn\<close> produced, every row \<open>j + 1\<close> is row \<open>j\<close> plus \<open>dt\<close>
  times the rate computed from row \<open>j\<close>: the central second difference times
  \<open>alphaprime\<close>, with \<open>Left_Boundary\<close> for the missing left neighbour of node 0 and
  \<open>Right_Boundary\<close> for the missing right neighbour of the last node. The rate array that
  the loop body computes at step \<open>j\<close> is the same whatever row \<open>j + 1\<close> of the field
  holds at that moment.
\<close>

theorem rows_advance_from_previous_row:
  assumes "heateqn thermal_prop self = (out, Inr r)"
    and "mat_constants thermal_prop self = (out', Inr (Some (k, alpha, c, e, rho)))"
    and "derived self k c rho = Inr (alphaprime, dx, dt)"
    and "j + 1 < length (run_U r)"
  shows "length (run_U r ! j) = nat (Number_Of_Steps self) \<and>
         run_U r ! (j + 1) =
           map (\<lambda>i. run_U r ! j ! i +
                  alphaprime *
                    (((if i = nat (Number_Of_Steps self) - 1 then Right_Boundary self
                       else run_U r ! j ! (i + 1)) -
                      2 * (run_U r ! j ! i) +
                      (if i = 0 then Left_Boundary self else run_U r ! j ! (i - 1))) / dx ^ 2) * dt)
             [0..<nat (Number_Of_Steps self)] \<and>
         map_sum id snd
           (step alphaprime dx dt (Left_Boundary self) (Right_Boundary self)
              (nat (Number_Of_Steps self)) j (V[j + 1 := w], x)) =
         map_sum id snd
           (step alphaprime dx dt (Left_Boundary self) (Right_Boundary self)
              (nat (Number_Of_Steps self)) j (V, x))"
proof -
  have "j < length (run_U r)" using assms(4) by simp
  then have "length (run_U r ! j) = nat (Number_Of_Steps self)"
    by (rule field_rows(2)[OF assms(1-3)])
  moreover have "run_U r ! (j + 1) =
      spec_next_row alphaprime dx dt (Left_Boundary self) (Right_Boundary self)
        (nat (Number_Of_Steps self)) (run_U r ! j)"
    using assms(4) by (rule field_rows(3)[OF assms(1-3)])
  then have "run_U r ! (j + 1) =
      map (\<lambda>i. run_U r ! j ! i +
             alphaprime *
               (((if i = nat (Number_Of_Steps self) - 1 then Right_Boundary self
                  else run_U r ! j ! (i + 1)) -
                 2 * (run_U r ! j ! i) +
                 (if i = 0 then Left_Boundary self else run_U r ! j ! (i - 1))) / dx ^ 2) * dt)
        [0..<nat (Number_Of_Steps self)]"
    by (simp only: spec_next_row_def spec_rate_def)
  ultimately show ?thesis
    using step_ignores_next_row by blast
qed

lemma rod3_mat_constants:
  "mat_constants [Aluminum, Copper] rod3 = ([], Inr (Some (225.94, 91, 921, 23688, 2698)))"
  by code_simp

lemma rod3_derived:
  "derived rod3 225.94 921 2698 = Inr (11297 / 124242900, 1 / 3, 20707150 / 33891)"
  by code_simp

theorem rows_advance_from_previous_row_witness:
  "heateqn [Aluminum, Copper] rod3 = ([], Inr rod3_run) \<and>
   2 + 1 < length (run_U rod3_run) \<and>
   length (run_U rod3_run ! 2) = nat (Number_Of_Steps rod3) \<and>
   run_U rod3_run ! (2 + 1) =
     map (\<lambda>i. run_U rod3_run ! 2 ! i +
            (11297 / 124242900) *
              (((if i = nat (Number_Of_Steps rod3) - 1 then Right_Boundary rod3
                 else run_U rod3_run ! 2 ! (i + 1)) -
                2 * (run_U rod3_run ! 2 ! i) +
                (if i = 0 then Left_Boundary rod3 else run_U rod3_run ! 2 ! (i - 1))) / (1 / 3) ^ 2) *
            (20707150 / 33891))
       [0..<nat (Number_Of_Steps rod3)] \<and>
   map_sum id snd
     (step (11297 / 124242900) (1 / 3) (20707150 / 33891) (Left_Boundary rod3) (Right_Boundary rod3)
        (nat (Number_Of_Steps rod3)) 2 ((run_U rod3_run)[2 + 1 := [1, 2, 3]], [0, 0, 0])) =
   map_sum id snd
     (step (11297 / 124242900) (1 / 3) (20707150 / 33891) (Left_Boundary rod3) (Right_Boundary rod3)
        (nat (Number_Of_Steps rod3)) 2 (run_U rod3_run, [0, 0, 0]))"
proof -
  have j: "2 + 1 < length (run_U rod3_run)" by (simp add: rod3_run_def)
  from rod3_heateqn j
    rows_advance_from_previous_row [OF rod3_heateqn rod3_mat_constants rod3_derived j,
      of "run_U rod3_run" "[1, 2, 3]" "[0, 0, 0]"]
  show ?thesis by (intro conjI) simp_all
qed

subsection \<open>The pulse parameters without the hat function\<close>

lemma solve_pulse_ignored:
  assumes "\<not> Hat_Function self"
  shows "map_sum id (run_Th_update (\<lambda>_. 0))
           (solve (self\<lparr>Temperature_0 := T0, Location_of_Temp := loc,
                        Length_Of_Hat_Function := len\<rparr>) k c rho) =
         map_sum id (run_Th_update (\<lambda>_. 0)) (solve self k c rho)"
  using assms
  by (auto simp: solve_def derived_def allocate_def hat_def Let_def split: sum.splits)

lemma mat_constants_pulse:
  "mat_constants thermal_prop
     (self\<lparr>Temperature_0 := T0, Location_of_Temp := loc, Length_Of_Hat_Function := len\<rparr>) =
   mat_constants thermal_prop self"
  by (simp add: mat_constants_def)

text \<open>
  C10. With the hat-function flag off, changing \<open>Temperature_0\<close>, \<open>Location_of_Temp\<close> and
  \<open>Length_Of_Hat_Function\<close> changes neither what is printed nor the field nor anything else
  of the run but \<open>Th\<close>; and \<open>Th\<close> can change: it does for the three-node rod when
  \<open>Temperature_0\<close> becomes 500.
\<close>

theorem pulse_parameters_unused_without_hat:
  assumes "\<not> Hat_Function self"
  shows "fst (heateqn thermal_prop
                (self\<lparr>Temperature_0 := T0, Location_of_Temp := loc,
                       Length_Of_Hat_Function := len\<rparr>)) =
         fst (heateqn thermal_prop self) \<and>
         map_sum id run_U
           (snd (heateqn thermal_prop
                   (self\<lparr>Temperature_0 := T0, Location_of_Temp := loc,
                          Length_Of_Hat_Function := len\<rparr>))) =
         map_sum id run_U (snd (heateqn thermal_prop self)) \<and>
         map_sum id (run_Th_update (\<lambda>_. 0))
           (snd (heateqn thermal_prop
                   (self\<lparr>Temperature_0 := T0, Location_of_Temp := loc,
                          Length_Of_Hat_Function := len\<rparr>))) =
         map_sum id (run_Th_update (\<lambda>_. 0)) (snd (heateqn thermal_prop self)) \<and>
         map_sum id run_Th
           (snd (heateqn [Aluminum, Copper]
                   (rod3\<lparr>Temperature_0 := Some 500, Location_of_Temp := None,
                          Length_Of_Hat_Function := None\<rparr>))) \<noteq>
         map_sum id run_Th (snd (heateqn [Aluminum, Copper] rod3))"
proof -
  let ?self' = "self\<lparr>Temperature_0 := T0, Location_of_Temp := loc, Length_Of_Hat_Function := len\<rparr>"
  have th: "map_sum id (run_Th_update (\<lambda>_. 0)) (snd (heateqn thermal_prop ?self')) =
            map_sum id (run_Th_update (\<lambda>_. 0)) (snd (heateqn thermal_prop self))"
    and out: "fst (heateqn thermal_prop ?self') = fst (heateqn thermal_prop self)"
    using solve_pulse_ignored[OF assms]
    by (auto simp: heateqn_def mat_constants_pulse split: prod.splits sum.splits option.splits)
  have "map_sum id run_U (map_sum id (run_Th_update (\<lambda>_. 0)) (snd (heateqn thermal_prop ?self'))) =
        map_sum id run_U (map_sum id (run_Th_update (\<lambda>_. 0)) (snd (heateqn thermal_prop self)))"
    using th by simp
  then have u: "map_sum id run_U (snd (heateqn thermal_prop ?self')) =
        map_sum id run_U (snd (heateqn thermal_prop self))"
    by (simp add: sum.map_comp comp_def id_def)
  have ex: "map_sum id run_Th
           (snd (heateqn [Aluminum, Copper]
                   (rod3\<lparr>Temperature_0 := Some 500, Location_of_Temp := None,
                          Length_Of_Hat_Function := None\<rparr>))) \<noteq>
         map_sum id run_Th (snd (heateqn [Aluminum, Copper] rod3))"
    by code_simp
  show ?thesis using out u th ex by blast
qed

theorem pulse_parameters_unused_without_hat_witness:
  "\<not> Hat_Function rod3 \<and>
   fst (heateqn [Aluminum, Copper]
          (rod3\<lparr>Temperature_0 := Some 500, Location_of_Temp := Some (1 / 2),
                 Length_Of_Hat_Function := Some 2\<rparr>)) =
   fst (heateqn [Aluminum, Copper] rod3) \<and>
   map_sum id run_U
     (snd (heateqn [Aluminum, Copper]
             (rod3\<lparr>Temperature_0 := Some 500, Location_of_Temp := Some (1 / 2),
                    Length_Of_Hat_Function := Some 2\<rparr>))) =
   map_sum id run_U (snd (heateqn [Aluminum, Copper] rod3))"
proof -
  have h: "\<not> Hat_Function rod3" by code_simp
  from h pulse_parameters_unused_without_hat
    [OF h, where thermal_prop = "[Aluminum, Copper]" and ?T0.0 = "Some 500"
       and loc = "Some (1 / 2)" and len = "Some 2"]
  show ?thesis by blast
qed

subsection \<open>Cross-sectional area\<close>

text \<open>
  C8. For a two-item tuple of floats \<open>(a, b)\<close>, \<open>area\<close> returns \<open>pi * a * b\<close> for an ellipse,
  \<open>a * b\<close> for a rectangle, \<open>(sqrt 3 / 4) * a\<^sup>2\<close> for a triangle and
  \<open>(3 * sqrt 3 / 2) * a\<^sup>2\<close> for a hexagon, the shape name compared after lower-casing;
  for every other name it prints a message and returns \<open>None\<close>. The witness holds the
  three scenarios of the specification and the capitalised name of the script's test.
\<close>

theorem area_closed_forms:
  assumes "Shape_Lengths self = [PFloat a, PFloat b]"
  shows "area self =
          (if lower (Shape self) = ''ellipse'' then ([], Inr (Some (PFloat (pi * a * b))))
           else if lower (Shape self) = ''rectangle'' then ([], Inr (Some (PFloat (a * b))))
           else if lower (Shape self) = ''triangle'' then
             ([], Inr (Some (PFloat ((sqrt 3 / 4) * a ^ 2))))
           else if lower (Shape self) = ''hexagon'' then
             ([], Inr (Some (PFloat ((3 * sqrt 3 / 2) * a ^ 2))))
           else (unsupported_shape, Inr None))"
  using assms by (simp add: area_def unsupported_shape_def)

lemma lower_ellipse: "lower ''ellipse'' = ''ellipse''" by code_simp
lemma lower_Ellipse: "lower ''Ellipse'' = ''ellipse''" by code_simp
lemma lower_Pentagon: "lower ''Pentagon'' = ''pentagon''" by code_simp

theorem area_closed_forms_witness:
  "area ellipse_2_3 = ([], Inr (Some (PFloat (6 * pi)))) \<and>
   area Ellipse_2_3 = ([], Inr (Some (PFloat (6 * pi)))) \<and>
   area ellipse_2_0 = ([], Inr (Some (PFloat 0))) \<and>
   area pentagon_2_1 = (unsupported_shape, Inr None)"
proof -
  have 1: "Shape_Lengths ellipse_2_3 = [PFloat 2, PFloat 3]" "Shape ellipse_2_3 = ''ellipse''"
    by (simp_all add: ellipse_2_3_def init_def)
  have 2: "Shape_Lengths Ellipse_2_3 = [PFloat 2, PFloat 3]" "Shape Ellipse_2_3 = ''Ellipse''"
    by (simp_all add: Ellipse_2_3_def init_def)
  have 3: "Shape_Lengths ellipse_2_0 = [PFloat 2, PFloat 0]" "Shape ellipse_2_0 = ''ellipse''"
    by (simp_all add: ellipse_2_0_def init_def)
  have 4: "Shape_Lengths pentagon_2_1 = [PFloat 2, PFloat 1]" "Shape pentagon_2_1 = ''Pentagon''"
    by (simp_all add: pentagon_2_1_def init_def)
  show ?thesis
    using area_closed_forms [OF 1(1)] area_closed_forms [OF 2(1)]
      area_closed_forms [OF 3(1)] area_closed_forms [OF 4(1)]
    by (simp add: 1 2 3 4 lower_ellipse lower_Ellipse lower_Pentagon)
qed

lemma lower_triangle: "lower ''triangle'' = ''triangle''" by code_simp
lemma lower_hexagon: "lower ''hexagon'' = ''hexagon''" by code_simp

text \<open>
  C9 (the code departs from the claim). A one-item tuple \<open>(2.0,)\<close> is stored as
  \<open>((2.0,), 0)\<close>, the tuple itself in first place, and \<open>area\<close> then raises TypeError for
  a triangle and for a hexagon, where the claim expects \<open>(2.0, 0)\<close> and the closed-form
  area.
\<close>

theorem single_length_stored_nested:
  "Shape_Lengths triangle_2 = [PTuple [PFloat 2], PInt 0] \<and>
   area triangle_2 = ([], Inl TypeError) \<and>
   Shape_Lengths hexagon_2 = [PTuple [PFloat 2], PInt 0] \<and>
   area hexagon_2 = ([], Inl TypeError)"
  by (simp add: triangle_2_def hexagon_2_def init_def area_def lower_triangle lower_hexagon)

subsection \<open>A material that the table does not hold\<close>

lemma lower_char_quote: "lower_char ch = CHR 0x27 \<longleftrightarrow> ch = CHR 0x27"
proof -
  have "of_char (char_of (of_char ch + 32 :: nat)) \<noteq> (39::nat)"
    if "65 \<le> (of_char ch :: nat)" "(of_char ch :: nat) \<le> 90"
    using that by (simp add: of_char_of)
  then have "char_of (of_char ch + 32 :: nat) \<noteq> CHR 0x27"
    if "65 \<le> (of_char ch :: nat)" "(of_char ch :: nat) \<le> 90"
    using that by fastforce
  moreover have "of_char (CHR 0x27) = (39::nat)" by simp
  ultimately show ?thesis
    by (auto simp: lower_char_def Let_def)
qed

lemma quote_lower: "CHR 0x27 \<in> set (lower s) \<longleftrightarrow> CHR 0x27 \<in> set s"
proof (induction s)
  case Nil
  then show ?case by (simp add: lower_def)
next
  case (Cons ch s)
  have "CHR 0x27 = lower_char ch \<longleftrightarrow> CHR 0x27 = ch"
    using lower_char_quote[of ch] by auto
  then show ?case using Cons by (simp add: lower_def)
qed

text \<open>
  C6 (the code departs from the claim). For a material name without a quote character
  that matches no row, \<open>mat_constants\<close> prints its two lines and the names of all
  materials and returns \<open>None\<close>; \<open>heateqn\<close> then ends in TypeError at the unpacking of
  line 123, before any stepping and with no field, and not in the return of line 126
  that its test of \<open>k\<close> was written for.
\<close>

theorem missing_material_raises_TypeError:
  assumes "CHR 0x27 \<notin> set (Material self)"
    and "\<forall>row \<in> set thermal_prop. lower (fst row) \<noteq> lower (Material self)"
  shows "mat_constants thermal_prop self = (not_found_report thermal_prop, Inr None) \<and>
         heateqn thermal_prop self = (not_found_report thermal_prop, Inl TypeError)"
proof -
  have "filter (\<lambda>row. lower (fst row) = lower (Material self)) thermal_prop = []"
    using assms(2) by (simp add: filter_empty_conv)
  then have "mat_constants thermal_prop self = (not_found_report thermal_prop, Inr None)"
    using assms(1) by (simp add: mat_constants_def not_found_report_def quote_lower)
  then show ?thesis by (simp add: heateqn_def)
qed

lemma rod_aluminium_absent:
  "CHR 0x27 \<notin> set (Material rod_aluminium) \<and>
   (\<forall>row \<in> set [Aluminum, Copper]. lower (fst row) \<noteq> lower (Material rod_aluminium))"
  by code_simp

theorem missing_material_raises_TypeError_witness:
  "mat_constants [Aluminum, Copper] rod_aluminium =
     (not_found_report [Aluminum, Copper], Inr None) \<and>
   heateqn [Aluminum, Copper] rod_aluminium =
     (not_found_report [Aluminum, Copper], Inl TypeError) \<and>
   not_found_report [Aluminum, Copper] =
     [Line (''Looks like the material you selected either is not in the database '' @
            ''or it is misspelled.''),
      Line ''please use one of the following materials'',
      Names [''Aluminum'', ''Copper'']]"
proof -
  have n: "not_found_report [Aluminum, Copper] =
     [Line (''Looks like the material you selected either is not in the database '' @
            ''or it is misspelled.''),
      Line ''please use one of the following materials'',
      Names [''Aluminum'', ''Copper'']]"
    by (simp add: not_found_report_def Aluminum_def Copper_def)
  from rod_aluminium_absent have a: "CHR 0x27 \<notin> set (Material rod_aluminium)"
    and b: "\<forall>row \<in> set [Aluminum, Copper]. lower (fst row) \<noteq> lower (Material rod_aluminium)"
    by blast+
  from missing_material_raises_TypeError [OF a b] n show ?thesis by blast
qed

subsection \<open>Configurations that the specification rejects\<close>

text \<open>
  C5, counterexample. A rod of length \<open>-1\<close> is a configuration that the specification
  rejects; the constructor prints nothing for it and \<open>heateqn\<close> returns a field.
\<close>

theorem negative_length_counterexample:
  "spec_configuration_error rod_negative_length \<and>
   fst (init ''Aluminum'' 2 ''ellipse'' [PFloat 1, PFloat 1] (- 1) 2000 100 100
          False False False None None None) = [] \<and>
   heateqn [Aluminum, Copper] rod_negative_length = ([], Inr rod_negative_length_run)"
  by code_simp

lemma solve_incomplete_hat:
  assumes "Hat_Function self"
    and "Location_of_Temp self = None \<or> Length_Of_Hat_Function self = None"
  shows "solve self k c rho \<in> Inl ` {TypeError, ZeroDivisionError, ValueError}"
  using assms
  by (auto simp: solve_def derived_def allocate_def hat_def Let_def split: option.splits)

text \<open>
  C5, amended. The constructor accepts every configuration and stores the number of
  nodes, the length and the duration as given; it prints the warning exactly when the hat
  function is requested and one of its three parameters is \<open>None\<close>. When the hat function
  is requested and the location or the plateau length is \<open>None\<close> (and the material name
  has no quote character), \<open>heateqn\<close> produces no field: it ends in TypeError,
  ZeroDivisionError or ValueError.
\<close>

theorem incomplete_hat_pulse_warns:
  assumes "init M n sh sl L T bl br g gr h t0 loc len = (out, self)"
  shows "out = (if h \<and> (t0 = None \<or> loc = None \<or> len = None) then hat_warning else []) \<and>
         Number_Of_Steps self = n \<and> Length self = L \<and> Time self = T \<and>
         Hat_Function self = h \<and> Temperature_0 self = t0 \<and> Location_of_Temp self = loc \<and>
         Length_Of_Hat_Function self = len \<and>
         (h \<and> (loc = None \<or> len = None) \<and> CHR 0x27 \<notin> set M \<longrightarrow>
            snd (heateqn thermal_prop self) \<in> Inl ` {TypeError, ZeroDivisionError, ValueError})"
proof -
  from assms have self: "Material self = M" "Number_Of_Steps self = n" "Length self = L"
    "Time self = T" "Hat_Function self = h" "Temperature_0 self = t0"
    "Location_of_Temp self = loc" "Length_Of_Hat_Function self = len"
    and out: "out = (if h \<and> (t0 = None \<or> loc = None \<or> len = None) then hat_warning else [])"
    by (auto simp: init_def Let_def hat_warning_def)
  have "snd (heateqn thermal_prop self) \<in> Inl ` {TypeError, ZeroDivisionError, ValueError}"
    if "h" "loc = None \<or> len = None" "CHR 0x27 \<notin> set M"
  proof -
    have q: "CHR 0x27 \<notin> set (lower (Material self))" using that(3) self by (simp add: quote_lower)
    have s: "solve self k c rho \<in> Inl ` {TypeError, ZeroDivisionError, ValueError}" for k c rho
      using that self by (intro solve_incomplete_hat) simp_all
    show ?thesis
      using q s
      by (auto simp: heateqn_def mat_constants_def Let_def split: list.splits prod.splits)
  qed
  then show ?thesis using self out by blast
qed

lemma rod_only_initialTemp_eval:
  "snd (heateqn [Aluminum, Copper] (snd rod_only_initialTemp)) = Inl TypeError"
  by code_simp

theorem incomplete_hat_pulse_warns_witness:
  "fst rod_only_initialTemp = hat_warning \<and>
   Hat_Function (snd rod_only_initialTemp) \<and>
   Location_of_Temp (snd rod_only_initialTemp) = None \<and>
   snd (heateqn [Aluminum, Copper] (snd rod_only_initialTemp))
     \<in> Inl ` {TypeError, ZeroDivisionError, ValueError} \<and>
   snd (heateqn [Aluminum, Copper] (snd rod_only_initialTemp)) = Inl TypeError"
proof -
  have i: "init ''Aluminum'' 10 ''ellipse'' [PFloat 1, PFloat 1] 1 6000 100 100
             False False True (Some 50) None None =
           (fst rod_only_initialTemp, snd rod_only_initialTemp)"
    by (simp add: rod_only_initialTemp_def)
  have q: "CHR 0x27 \<notin> set ''Aluminum''" by simp
  from incomplete_hat_pulse_warns [OF i, of "[Aluminum, Copper]"] q rod_only_initialTemp_eval
  show ?thesis by simp
qed

subsection \<open>The initial row with a hat pulse\<close>

text \<open>
  C4 (the code departs from the claim). For a pulse of 50 degrees at 0.1 m with plateau
  length 2 on ten nodes of a rod of one metre, the centre index is 0 and the half width 1,
  so the slice is \<open>[-1:1]\<close>. Python reads the negative start from the right end, as
  \<open>[9:1]\<close>, which holds no node: row 0 stays 0 everywhere and the pulse is lost, where the
  range of the claim, clamped at 0, sets node 0. At the other end the same slice is
  clipped as the claim says: a pulse at 1 m with plateau length 4 has the slice \<open>[7:11]\<close>
  and sets the nodes 7, 8 and 9.
\<close>

theorem hat_pulse_lost_at_left_edge:
  "heateqn [Aluminum, Copper] rod10_hat = ([], Inr rod10_hat_run) \<and>
   run_U rod10_hat_run ! 0 = [0, 0, 0, 0, 0, 0, 0, 0, 0, 0] \<and>
   spec_hat_row rod10_hat = [50, 0, 0, 0, 0, 0, 0, 0, 0, 0] \<and>
   map_sum id (\<lambda>r. run_U r ! 0) (snd (heateqn [Aluminum, Copper] rod10_hat_right)) =
     Inr [0, 0, 0, 0, 0, 0, 0, 50, 50, 50] \<and>
   spec_hat_row rod10_hat_right = [0, 0, 0, 0, 0, 0, 0, 50, 50, 50]"
  by code_simp

end
